theory Spec2Isabelle
  imports Main "HOL-Library.Sublist"
begin

section \<open>Errors\<close>

text \<open>
  The exceptions the modelled functions can raise. \<open>ValueError\<close> carries which check
  raised it, so that two different validation failures stay distinguishable.
  \<open>NotModelled\<close> is not a Python exception: it marks the inputs of a library function
  (\<open>str.format\<close>, \<open>int\<close>) that lie outside the fragment modelled here.
\<close>

datatype value_error =
    KeywordMismatch      \<comment> \<open>"Keyword arguments do not match template variables."\<close>
  | CountMismatch        \<comment> \<open>"Number of arguments does not match the number of template variables."\<close>
  | DictKeysMismatch     \<comment> \<open>"Dictionary keys do not match template variables."\<close>
  | NoArguments          \<comment> \<open>"No arguments provided, but template expects variables."\<close>
  | MissingKeyword string \<comment> \<open>"Missing a keyword argument: ..."\<close>
  | FormatString         \<comment> \<open>raised by the format-string scanner: a single brace, an open field\<close>
  | InvalidLiteral       \<comment> \<open>raised by \<open>int\<close>: invalid literal, or more digits than the limit\<close>

datatype py_error =
    IndexError
  | KeyError string
  | TypeError
  | ValueError value_error
  | FileNotFoundError string
  | APIError             \<comment> \<open>any failure of the call to the completion API\<close>
  | NotModelled

section \<open>Transcripts and role-tagged messages\<close>

text \<open>
  A Gradio chat history is a list of two-element lists \<open>[user, bot]\<close> whose slots are a
  string or \<open>None\<close>. An OpenAI message is a dict with the keys \<open>role\<close> and \<open>content\<close>;
  the content is \<open>None\<close> only for the message that \<open>convert_openai_to_gradio\<close> inserts.
\<close>

type_synonym pair = "string option \<times> string option"
type_synonym transcript = "pair list"

record openai_message =
  role :: string
  content :: "string option"

subsection \<open>\<open>convert_gradio_to_openai\<close>\<close>

text \<open>
  The inner loop runs over \<open>enumerate(["user", "assistant"])\<close>; \<open>slot_message\<close> is one
  round of it: nothing for a slot that is \<open>None\<close> or \<open>""\<close>, one message otherwise.
\<close>

definition slot_message :: "string \<Rightarrow> string option \<Rightarrow> openai_message list" where
  "slot_message r slot =
     (case slot of
        None \<Rightarrow> []
      | Some s \<Rightarrow> if s = [] then [] else [\<lparr>role = r, content = Some s\<rparr>])"

fun convert_gradio_to_openai :: "transcript \<Rightarrow> openai_message list" where
  "convert_gradio_to_openai [] = []"
| "convert_gradio_to_openai (pair # chat_history) =
     slot_message ''user'' (fst pair) @ slot_message ''assistant'' (snd pair)
       @ convert_gradio_to_openai chat_history"

subsection \<open>\<open>convert_openai_to_gradio\<close>\<close>

text \<open>
  The loop \<open>for i in range(0, len(messages), 2)\<close> reads \<open>messages[i]\<close> and
  \<open>messages[i + 1]\<close>; the second read raises IndexError when \<open>i + 1\<close> is the length.
\<close>

function chat_history_loop ::
  "openai_message list \<Rightarrow> nat \<Rightarrow> transcript \<Rightarrow> py_error + transcript" where
  "chat_history_loop messages i chat_history =
     (if i < length messages then
        (if i + 1 < length messages then
           chat_history_loop messages (i + 2)
             (chat_history @ [(content (messages ! i), content (messages ! (i + 1)))])
         else Inl IndexError)
      else Inr chat_history)"
  by pat_completeness auto
termination
  by (relation "measure (\<lambda>(messages, i, chat_history). length messages - i)") auto

declare chat_history_loop.simps [simp del]

text \<open>
  \<open>insert_leading_user\<close> is the first statement of the function: \<open>messages[0]\<close> raises
  IndexError on the empty list; otherwise a user message with content \<open>None\<close> is put in
  front unless the first role is \<open>"user"\<close>. (The source inserts into the caller's list;
  the model returns the list the loop then runs over.)
\<close>

definition insert_leading_user :: "openai_message list \<Rightarrow> py_error + openai_message list" where
  "insert_leading_user messages =
     (case messages of
        [] \<Rightarrow> Inl IndexError
      | m # _ \<Rightarrow>
          Inr (if role m \<noteq> ''user''
               then \<lparr>role = ''user'', content = None\<rparr> # messages
               else messages))"

definition convert_openai_to_gradio :: "openai_message list \<Rightarrow> py_error + transcript" where
  "convert_openai_to_gradio messages =
     (case insert_leading_user messages of
        Inl e \<Rightarrow> Inl e
      | Inr messages' \<Rightarrow> chat_history_loop messages' 0 [])"

text \<open>A transcript is well formed when every slot holds a non-empty string.\<close>

fun filled :: "string option \<Rightarrow> bool" where
  "filled None = False"
| "filled (Some s) = (s \<noteq> [])"

definition well_formed :: "transcript \<Rightarrow> bool" where
  "well_formed T = list_all (\<lambda>p. filled (fst p) \<and> filled (snd p)) T"

text \<open>The index loop, read structurally: two messages at a time from the rest of the list.\<close>

fun pairs_of :: "openai_message list \<Rightarrow> py_error + transcript" where
  "pairs_of [] = Inr []"
| "pairs_of [m] = Inl IndexError"
| "pairs_of (m # m' # ms) =
     (case pairs_of ms of
        Inl e \<Rightarrow> Inl e
      | Inr ps \<Rightarrow> Inr ((content m, content m') # ps))"

section \<open>Template engine\<close>

subsection \<open>The format-string scanner\<close>

text \<open>
  \<open>string.Formatter().parse\<close> and \<open>str.format\<close> run the same scanner over the
  template. It yields pieces \<open>(literal_text, field_name)\<close>: the literal text up to the
  next replacement field together with the field's name, or (field name \<open>None\<close>) the
  literal text up to an escaped brace \<open>{{\<close>, \<open>}}\<close> or the end of the string. The
  scanner is lazy: a malformed template raises ValueError only when the scan reaches the
  bad brace, after the pieces before it have been yielded. The model returns the pieces
  and the error that ends the scan, if any.

  Modelled is the fragment of the format-string syntax the prompt templates use: literal
  text, escaped braces, and fields \<open>{name}\<close>. A field with a conversion \<open>!r\<close>, a format
  specification \<open>:spec\<close>, an attribute or index lookup, or a nested brace ends the scan
  with \<open>NotModelled\<close>.
\<close>

type_synonym piece = "string \<times> string option"

definition field_special :: "char \<Rightarrow> bool" where
  "field_special c = (c \<in> set ''{![].:'')"

fun emit :: "piece \<Rightarrow> piece list \<times> py_error option \<Rightarrow> piece list \<times> py_error option" where
  "emit p (ps, e) = (p # ps, e)"

fun scan_literal :: "string \<Rightarrow> string \<Rightarrow> piece list \<times> py_error option"
  and scan_field :: "string \<Rightarrow> string \<Rightarrow> string \<Rightarrow> piece list \<times> py_error option" where
  "scan_literal lit [] = (if lit = [] then [] else [(lit, None)], None)"
| "scan_literal lit [c] =
     (if c = CHR ''{'' \<or> c = CHR ''}'' then ([], Some (ValueError FormatString))
      else ([(lit @ [c], None)], None))"
| "scan_literal lit (c # d # s) =
     (if c = CHR ''}'' then
        (if d = CHR ''}'' then emit (lit @ [c], None) (scan_literal [] s)
         else ([], Some (ValueError FormatString)))
      else if c = CHR ''{'' then
        (if d = CHR ''{'' then emit (lit @ [c], None) (scan_literal [] s)
         else scan_field lit [] (d # s))
      else scan_literal (lit @ [c]) (d # s))"
| "scan_field lit name [] = ([], Some (ValueError FormatString))"
| "scan_field lit name (c # s) =
     (if c = CHR ''}'' then emit (lit, Some name) (scan_literal [] s)
      else if field_special c then ([], Some NotModelled)
      else scan_field lit (name @ [c]) s)"

definition formatter_parse :: "string \<Rightarrow> piece list \<times> py_error option" where
  "formatter_parse format_string = scan_literal [] format_string"

subsection \<open>\<open>str.format\<close>\<close>

text \<open>
  A field name that is empty or all digits is a positional field (automatic or explicit
  numbering); any other name is looked up in the keyword arguments, and a missing name
  raises KeyError. The values are strings, which an empty format specification renders
  as they are. Positional fields, and names with a character outside ASCII (which may be
  a Unicode digit), are outside the modelled fragment.
\<close>

definition is_digit :: "char \<Rightarrow> bool" where
  "is_digit c = (c \<in> set ''0123456789'')"

definition keyword_name :: "string \<Rightarrow> bool" where
  "keyword_name n = (\<not> list_all is_digit n \<and> list_all (\<lambda>c. (of_char c :: nat) < 128) n)"

datatype pyval = Str string | Dict "(string \<times> string) list"

fun render ::
  "piece list \<Rightarrow> py_error option \<Rightarrow> (string \<times> string) list \<Rightarrow> py_error + string" where
  "render [] e kwargs = (case e of None \<Rightarrow> Inr [] | Some err \<Rightarrow> Inl err)"
| "render ((lit, None) # ps) e kwargs =
     (case render ps e kwargs of Inl err \<Rightarrow> Inl err | Inr s \<Rightarrow> Inr (lit @ s))"
| "render ((lit, Some n) # ps) e kwargs =
     (if \<not> keyword_name n then Inl NotModelled
      else case map_of kwargs n of
             None \<Rightarrow> Inl (KeyError n)
           | Some v \<Rightarrow>
               (case render ps e kwargs of Inl err \<Rightarrow> Inl err | Inr s \<Rightarrow> Inr (lit @ v @ s)))"

text \<open>
  \<open>str_format t args kwargs\<close> is \<open>t.format(*args, **kwargs)\<close>. In the modelled fragment
  no field reads a positional argument, and Python ignores the positional arguments that
  no field reads.
\<close>

definition str_format ::
  "string \<Rightarrow> pyval list \<Rightarrow> (string \<times> string) list \<Rightarrow> py_error + string" where
  "str_format t args kwargs = (case formatter_parse t of (ps, e) \<Rightarrow> render ps e kwargs)"

subsection \<open>\<open>PromptTemplate\<close>\<close>

text \<open>
  The object keeps the template string and the list of field names
  (\<open>parse_template\<close>: the names, in order and with repetitions, of the pieces that have
  one). A keyword dictionary is an association list whose keys are its key set; the
  positional arguments are strings or dictionaries.
\<close>

record PromptTemplate =
  template :: string
  variables :: "string list"

definition parse_template :: "string \<Rightarrow> py_error + string list" where
  "parse_template t =
     (case formatter_parse t of
        (ps, Some err) \<Rightarrow> Inl err
      | (ps, None) \<Rightarrow> Inr (List.map_filter snd ps))"

definition PromptTemplate_init :: "string \<Rightarrow> py_error + PromptTemplate" where
  "PromptTemplate_init t =
     (case parse_template t of
        Inl err \<Rightarrow> Inl err
      | Inr vs \<Rightarrow> Inr \<lparr>template = t, variables = vs\<rparr>)"

text \<open>\<open>len(args) == 1 and isinstance(args[0], dict)\<close>, giving the dictionary.\<close>

fun single_dict :: "pyval list \<Rightarrow> (string \<times> string) list option" where
  "single_dict [Dict arg_dict] = Some arg_dict"
| "single_dict args = None"

text \<open>
  The signature is \<open>format(self, *args, **kwargs)\<close>: a call with a keyword named
  \<open>self\<close> gives the first parameter two values and raises TypeError before the body
  runs. Every other keyword reaches the body in \<open>kwargs\<close>.
\<close>

definition format ::
  "PromptTemplate \<Rightarrow> pyval list \<Rightarrow> (string \<times> string) list \<Rightarrow> py_error + string" where
  "format self args kwargs =
     (if ''self'' \<in> set (map fst kwargs) then Inl TypeError
      else if kwargs \<noteq> [] \<and> set (map fst kwargs) \<noteq> set (variables self)
      then Inl (ValueError KeywordMismatch)
      else if args \<noteq> [] \<and> length args \<noteq> length (variables self)
      then Inl (ValueError CountMismatch)
      else case single_dict args of
        Some arg_dict \<Rightarrow>
          if set (map fst arg_dict) \<noteq> set (variables self)
          then Inl (ValueError DictKeysMismatch)
          else str_format (template self) [] arg_dict
      | None \<Rightarrow>
          if args = [] \<and> kwargs = [] \<and> variables self \<noteq> []
          then Inl (ValueError NoArguments)
          else (case str_format (template self) args kwargs of
                  Inl (KeyError k) \<Rightarrow> Inl (ValueError (MissingKeyword k))
                | r \<Rightarrow> r))"

text \<open>\<open>from_file\<close> reads the template text from a file; the files are a map from paths.\<close>

definition from_file :: "(string \<rightharpoonup> string) \<Rightarrow> string \<Rightarrow> py_error + PromptTemplate" where
  "from_file files file_path =
     (case files file_path of
        None \<Rightarrow> Inl (FileNotFoundError file_path)
      | Some template_content \<Rightarrow> PromptTemplate_init template_content)"

section \<open>Session initializer\<close>

subsection \<open>\<open>int\<close> of a string and list indexing\<close>

text \<open>
  \<open>int(s)\<close> in base 10 on a string of ASCII characters: white space (tab, line feed,
  vertical tab, form feed, carriage return, space) around the literal is skipped; the
  literal is an optional sign and a run of digits in which single underscores may stand
  between digits; anything else raises ValueError, and so does a literal with more digits
  than \<open>max_str_digits\<close>, the interpreter's limit for the conversion
  (\<open>sys.get_int_max_str_digits()\<close>: 4300 unless changed, 0 for no limit, as in the
  interpreters that have none). On a string with a character outside ASCII \<open>int\<close>
  consults the Unicode tables of white space and decimal digits; those strings are not
  modelled here.
\<close>

definition py_isspace :: "char \<Rightarrow> bool" where
  "py_isspace c = (c \<in> set [CHR 0x09, CHR 0x0A, CHR 0x0B, CHR 0x0C, CHR 0x0D, CHR '' ''])"

fun grouped_digits :: "string \<Rightarrow> bool" where
  "grouped_digits [] = False"
| "grouped_digits [c] = is_digit c"
| "grouped_digits (c # d # s) =
     (is_digit c \<and> (if d = CHR ''_'' then grouped_digits s else grouped_digits (d # s)))"

definition digits_value :: "string \<Rightarrow> nat" where
  "digits_value ds = foldl (\<lambda>acc c. 10 * acc + (of_char c - 48)) 0 ds"

definition py_int :: "nat \<Rightarrow> string \<Rightarrow> py_error + int" where
  "py_int max_str_digits s =
     (if list_ex (\<lambda>c. 128 \<le> (of_char c :: nat)) s then Inl NotModelled
      else
        let literal = dropWhile py_isspace (rev (dropWhile py_isspace (rev s)));
            negative = (literal \<noteq> [] \<and> hd literal = CHR ''-'');
            ds = (if literal \<noteq> [] \<and> (hd literal = CHR ''-'' \<or> hd literal = CHR ''+'')
                  then tl literal else literal)
        in if \<not> grouped_digits ds then Inl (ValueError InvalidLiteral)
           else if 0 < max_str_digits \<and> max_str_digits < length (filter is_digit ds)
           then Inl (ValueError InvalidLiteral)
           else Inr ((if negative then - 1 else 1) * int (digits_value (filter is_digit ds))))"

text \<open>\<open>xs[i]\<close>: a negative index counts from the end, an index out of range raises.\<close>

definition py_index :: "'a list \<Rightarrow> int \<Rightarrow> py_error + 'a" where
  "py_index xs i =
     (let n = int (length xs); j = (if i < 0 then n + i else i)
      in if 0 \<le> j \<and> j < n then Inr (xs ! nat j) else Inl IndexError)"

subsection \<open>\<open>initialize_interview\<close>\<close>

text \<open>
  The files the function reads are parameters: \<open>question_mapping\<close> is the dictionary
  loaded at process start, \<open>json_files\<close> gives for a path the question record the file
  holds (the JSON object with the keys \<open>question\<close> and \<open>choices\<close>), \<open>text_files\<close> the
  text of a template file. The query parameters are a map from names to values.
  The builtin \<open>int\<close> is a parameter too, \<open>int_of\<close>: the function from a string to
  the integer it reads or the error it raises, whatever the interpreter's Unicode tables
  and digit limit are (\<open>py_int\<close> above is that function on ASCII strings).
\<close>

record question_data =
  question :: string
  choices :: "string list"

record assets =
  question_mapping :: "string \<rightharpoonup> string"
  json_files :: "string \<rightharpoonup> question_data"
  text_files :: "string \<rightharpoonup> string"

definition get_param :: "(string \<rightharpoonup> string) \<Rightarrow> string \<Rightarrow> string \<Rightarrow> string" where
  "get_param request_params key dflt =
     (case request_params key of None \<Rightarrow> dflt | Some v \<Rightarrow> v)"

definition initialize_interview ::
  "assets \<Rightarrow> (string \<Rightarrow> py_error + int) \<Rightarrow> (string \<rightharpoonup> string)
     \<Rightarrow> py_error + (string \<times> string \<times> string \<times> string \<times> string)" where
  "initialize_interview A int_of request_params =
     (let user_id = get_param request_params ''user'' ''testUser'';
          session_id = get_param request_params ''session'' ''testSession'';
          question_id = get_param request_params ''questionid'' ''0'';
          response_id = get_param request_params ''response'' ''0''
      in case question_mapping A question_id of
        None \<Rightarrow> Inl (KeyError question_id)
      | Some fname \<Rightarrow>
      (case json_files A (''./assets/questions/'' @ fname) of
        None \<Rightarrow> Inl (FileNotFoundError (''./assets/questions/'' @ fname))
      | Some question_data \<Rightarrow>
      (let question_wording = question question_data;
           question_choices = choices question_data
       in case int_of response_id of
        Inl e \<Rightarrow> Inl e
      | Inr idx \<Rightarrow>
      (case py_index question_choices idx of
        Inl e \<Rightarrow> Inl e
      | Inr response_text \<Rightarrow>
      (case from_file (text_files A) ''assets/initial_message.txt'' of
        Inl e \<Rightarrow> Inl e
      | Inr initial_template \<Rightarrow>
      (case format initial_template [] [(''surveyQuestion'', question_wording)] of
        Inl e \<Rightarrow> Inl e
      | Inr initial_message \<Rightarrow>
      (case from_file (text_files A) ''assets/system_message.txt'' of
        Inl e \<Rightarrow> Inl e
      | Inr system_template \<Rightarrow>
      (case format system_template []
              [(''surveyQuestion'', question_wording), (''responseVal'', response_text)] of
        Inl e \<Rightarrow> Inl e
      | Inr system_message \<Rightarrow>
          Inr (user_id, session_id, question_wording, initial_message, system_message)))))))))"

section \<open>Interview engine\<close>

subsection \<open>\<open>user_message\<close>\<close>

definition user_message :: "string \<Rightarrow> transcript \<Rightarrow> string \<times> transcript" where
  "user_message message chat_history = ([], chat_history @ [(Some message, None)])"

subsection \<open>\<open>bot_message\<close>\<close>

text \<open>
  The completion request is the message list, \<open>stream=True\<close> and the model arguments.
  The hosted API is a parameter: a function from the request to an error or the finite
  stream of the chunks' \<open>choices[0].delta.content\<close>, each a string or \<open>None\<close>.
\<close>

record 'm completion_request =
  messages :: "openai_message list"
  stream :: bool
  model_args :: 'm

text \<open>The part under the comment \<open>Prep messages\<close>; \<open>chat_history[-1]\<close> raises on \<open>[]\<close>.\<close>

definition prep_messages :: "transcript \<Rightarrow> string \<Rightarrow> py_error + openai_message list" where
  "prep_messages chat_history system_message =
     (if chat_history = [] then Inl IndexError
      else let user_msg = fst (last chat_history);
               msgs = convert_gradio_to_openai (butlast chat_history)
           in Inr ([\<lparr>role = ''system'', content = Some system_message\<rparr>]
                   @ msgs
                   @ [\<lparr>role = ''user'', content = user_msg\<rparr>]))"

text \<open>\<open>chat_history[-1][1] = v\<close> on a non-empty history.\<close>

definition set_last_bot :: "transcript \<Rightarrow> string option \<Rightarrow> transcript" where
  "set_last_bot chat_history v = butlast chat_history @ [(fst (last chat_history), v)]"

text \<open>
  The loop over the response. A fragment that is \<open>None\<close> or \<open>""\<close> is skipped; any other
  is appended to the bot slot (\<open>+=\<close> on a slot that is \<open>None\<close> would raise TypeError)
  and the history is yielded. The result is the list of the yielded histories and the
  history after the loop.
\<close>

fun stream_loop ::
  "transcript \<Rightarrow> string option list \<Rightarrow> py_error + (transcript list \<times> transcript)" where
  "stream_loop chat_history [] = Inr ([], chat_history)"
| "stream_loop chat_history (delta # response) =
     (case delta of
        None \<Rightarrow> stream_loop chat_history response
      | Some d \<Rightarrow>
          if d = [] then stream_loop chat_history response
          else (case snd (last chat_history) of
                  None \<Rightarrow> Inl TypeError
                | Some bot_text \<Rightarrow>
                    (let chat_history' = set_last_bot chat_history (Some (bot_text @ d))
                     in case stream_loop chat_history' response of
                          Inl e \<Rightarrow> Inl e
                        | Inr (yielded, final) \<Rightarrow> Inr (chat_history' # yielded, final))))"

definition bot_message ::
  "transcript \<Rightarrow> string \<Rightarrow> 'm \<Rightarrow> ('m completion_request \<Rightarrow> py_error + string option list)
     \<Rightarrow> py_error + (transcript list \<times> transcript)" where
  "bot_message chat_history system_message margs client =
     (case prep_messages chat_history system_message of
        Inl e \<Rightarrow> Inl e
      | Inr msgs \<Rightarrow>
          (case client \<lparr>messages = msgs, stream = True, model_args = margs\<rparr> of
             Inl e \<Rightarrow> Inl e
           | Inr response \<Rightarrow> stream_loop (set_last_bot chat_history (Some [])) response))"

subsection \<open>Logger and \<open>log_interaction\<close>\<close>

text \<open>
  A log file is the list of its lines, each line the record that was serialised into it;
  the log directory is a function from file names to files. \<open>record\<close> opens the file
  \<open><session>.jsonl\<close> under the log directory for appending and writes one line. The
  session id comes from the request as it is, so the open can fail (a name with a
  \<open>/\<close> whose directory does not exist, a name with a null character, a directory that
  cannot be written): the file system is a parameter \<open>open_append\<close>, which gives for
  the present directory and a file name the exception the open raises, if any. A write
  that raises leaves the directory as it was. The time stamp read from the clock is a
  parameter. The result is the directory after the call and the exception raised, if any.
\<close>

record log_entry =
  session :: string
  timestamp :: string
  log_role :: string
  message :: "string option"






subsection \<open>\<open>interview_end_check\<close>\<close>

text \<open>\<open>sub in s\<close> on strings: \<open>sub\<close> occurs in \<open>s\<close> as a contiguous run.\<close>

fun py_in :: "string \<Rightarrow> string \<Rightarrow> bool" where
  "py_in sub [] = (sub = [])"
| "py_in sub (c # s) = (prefix sub (c # s) \<or> py_in sub s)"

text \<open>
  \<open>s.replace(old, new)\<close>: the occurrences of \<open>old\<close> found scanning from the left, each
  search starting after the previous occurrence, are replaced; an empty \<open>old\<close> matches
  before every character and at the end.
\<close>

function py_replace :: "string \<Rightarrow> string \<Rightarrow> string \<Rightarrow> string" where
  "py_replace s old new =
     (if old = [] then new @ concat (map (\<lambda>c. c # new) s)
      else if s = [] then []
      else if prefix old s then new @ py_replace (drop (length old) s) old new
      else hd s # py_replace (tl s) old new)"
  by pat_completeness auto
termination
  by (relation "measure (\<lambda>(s, old, new). length s)") auto

declare py_replace.simps [simp del]

text \<open>
  The result: the history and the \<open>visible\<close> flags of the three components, the
  "Save and Exit" button, the input box and the submit button.
\<close>

record end_check =
  chat_history :: transcript
  button_visible :: bool
  input_visible :: bool
  submit_visible :: bool

definition interview_end_check :: "transcript \<Rightarrow> int \<Rightarrow> string \<Rightarrow> py_error + end_check" where
  "interview_end_check history limit end_of_interview =
     (let flag = (limit \<le> int (length history))
      in if history = [] then Inl IndexError
         else case snd (last history) of
           None \<Rightarrow> Inl TypeError
         | Some bot_text \<Rightarrow>
             (let (history', flag') =
                    (if py_in end_of_interview bot_text
                     then (set_last_bot history (Some (py_replace bot_text end_of_interview [])), True)
                     else (history, flag))
              in Inr \<lparr>chat_history = history', button_visible = flag',
                      input_visible = \<not> flag', submit_visible = \<not> flag'\<rparr>))"

text \<open>The default values of the parameters \<open>limit\<close> and \<open>end_of_interview\<close>.\<close>

definition default_limit :: int where
  "default_limit = 20"

definition default_end_of_interview :: string where
  "default_end_of_interview = ''<end_of_survey>''"

section \<open>Notions used to state the properties\<close>

text \<open>
  These are not translations of source functions. A template of the modelled fragment is
  described by its segments: runs of literal text without braces, and placeholders
  \<open>{name}\<close>. \<open>substituted\<close> is what the specification asks of \<open>format\<close>: the template
  text with each placeholder replaced by the mapping's value for it.
\<close>

datatype segment = Text string | Placeholder string

fun template_text :: "segment list \<Rightarrow> string" where
  "template_text [] = []"
| "template_text (Text a # segs) = a @ template_text segs"
| "template_text (Placeholder n # segs) = CHR ''{'' # n @ CHR ''}'' # template_text segs"

fun placeholders :: "segment list \<Rightarrow> string list" where
  "placeholders [] = []"
| "placeholders (Text a # segs) = placeholders segs"
| "placeholders (Placeholder n # segs) = n # placeholders segs"

fun substituted :: "segment list \<Rightarrow> (string \<times> string) list \<Rightarrow> string" where
  "substituted [] kwargs = []"
| "substituted (Text a # segs) kwargs = a @ substituted segs kwargs"
| "substituted (Placeholder n # segs) kwargs = the (map_of kwargs n) @ substituted segs kwargs"

definition brace_free :: "string \<Rightarrow> bool" where
  "brace_free s = (CHR ''{'' \<notin> set s \<and> CHR ''}'' \<notin> set s)"

definition plain_name :: "string \<Rightarrow> bool" where
  "plain_name n = (CHR ''}'' \<notin> set n \<and> \<not> list_ex field_special n \<and> keyword_name n)"

fun simple_segment :: "segment \<Rightarrow> bool" where
  "simple_segment (Text a) = brace_free a"
| "simple_segment (Placeholder n) = plain_name n"

definition simple_segments :: "segment list \<Rightarrow> bool" where
  "simple_segments segs = list_all simple_segment segs"

text \<open>The fragments of a streamed response that carry text, in arrival order.\<close>

fun fragments :: "string option list \<Rightarrow> string list" where
  "fragments [] = []"
| "fragments (None # response) = fragments response"
| "fragments (Some d # response) = (if d = [] then fragments response else d # fragments response)"

text \<open>
  The flattened history in the words of the specification: for each turn-pair a user
  message then an assistant message, in order, omitting any slot that is empty or absent.
\<close>

definition flat_history :: "transcript \<Rightarrow> openai_message list" where
  "flat_history T =
     List.map_filter
       (\<lambda>(r, slot). case slot of
                      None \<Rightarrow> None
                    | Some s \<Rightarrow> if s = [] then None else Some \<lparr>role = r, content = Some s\<rparr>)
       (concat (map (\<lambda>p. [(''user'', fst p), (''assistant'', snd p)]) T))"


section \<open>Properties of the format adapters\<close>

lemma chat_history_loop_drop:
  "chat_history_loop ms i acc =
     (case pairs_of (drop i ms) of Inl e \<Rightarrow> Inl e | Inr ps \<Rightarrow> Inr (acc @ ps))"
proof (induction ms i acc rule: chat_history_loop.induct)
  case (1 ms i acc)
  show ?case
  proof (cases "i < length ms")
    case False
    then show ?thesis by (simp add: chat_history_loop.simps [of ms i acc])
  next
    case True
    show ?thesis
    proof (cases "i + 1 < length ms")
      case False
      with True have d: "drop i ms = [ms ! i]"
        by (metis Cons_nth_drop_Suc Suc_eq_plus1 drop_all not_less)
      from True False show ?thesis
        by (simp add: chat_history_loop.simps [of ms i acc] d)
    next
      case len: True
      have d: "drop i ms = ms ! i # ms ! (i + 1) # drop (i + 2) ms"
        using True len by (metis Cons_nth_drop_Suc Suc_eq_plus1 add_2_eq_Suc')
      from True len "1.IH" show ?thesis
        by (simp add: chat_history_loop.simps [of ms i acc] d split: sum.splits)
    qed
  qed
qed

lemma pairs_of_odd: "odd (length ms) \<Longrightarrow> pairs_of ms = Inl IndexError"
  by (induction ms rule: pairs_of.induct) auto

lemma pairs_of_convert:
  "well_formed T \<Longrightarrow> pairs_of (convert_gradio_to_openai T) = Inr T"
proof (induction T)
  case Nil
  then show ?case by simp
next
  case (Cons p T)
  obtain u b where p: "p = (u, b)" by (cases p)
  from Cons.prems p obtain us bs where ub: "u = Some us" "us \<noteq> []" "b = Some bs" "bs \<noteq> []"
    by (cases u; cases b) (auto simp: well_formed_def)
  from Cons have "pairs_of (convert_gradio_to_openai T) = Inr T"
    by (simp add: well_formed_def)
  then show ?case
    by (simp add: p ub slot_message_def)
qed

lemma convert_first_role:
  "well_formed (p # T) \<Longrightarrow>
     \<exists>m ms. convert_gradio_to_openai (p # T) = m # ms \<and> role m = ''user''"
  by (cases p; cases "fst p") (auto simp: well_formed_def slot_message_def)

text \<open>
  The round trip holds for every well-formed transcript that has at least one pair.
\<close>

lemma roundtrip_nonempty:
  assumes "well_formed T" and "T \<noteq> []"
  shows "convert_openai_to_gradio (convert_gradio_to_openai T) = Inr T"
proof -
  from assms obtain p T' where T: "T = p # T'" by (cases T) auto
  with assms obtain m ms where
    m: "convert_gradio_to_openai T = m # ms" "role m = ''user''"
    using convert_first_role by blast
  then have "insert_leading_user (convert_gradio_to_openai T) = Inr (convert_gradio_to_openai T)"
    by (simp add: insert_leading_user_def)
  then show ?thesis
    using pairs_of_convert [OF assms(1)]
    by (simp add: convert_openai_to_gradio_def chat_history_loop_drop)
qed

text \<open>
  Claim C1. For every well-formed transcript the conversion to the flat message list and
  back gives the transcript again. The empty transcript is well formed (it has no pair
  with an empty slot) and flattens to the empty message list, on which
  \<open>convert_openai_to_gradio\<close> reads \<open>messages[0]\<close> and raises IndexError.
\<close>

theorem roundtrip_empty_transcript:
  "well_formed [] \<and> convert_gradio_to_openai [] = []
     \<and> convert_openai_to_gradio (convert_gradio_to_openai []) = Inl IndexError"
  by (simp add: well_formed_def convert_openai_to_gradio_def insert_leading_user_def)

text \<open>
  Claim C10. \<open>convert_openai_to_gradio\<close> is partial: whenever the message list, after the
  conditional insertion of the leading user message, has odd length, the grouping reads
  one index past the end and the function fails with IndexError.
\<close>

theorem convert_openai_to_gradio_odd:
  assumes "insert_leading_user msgs = Inr msgs'"
    and "odd (length msgs')"
  shows "convert_openai_to_gradio msgs = Inl IndexError"
  using assms by (simp add: convert_openai_to_gradio_def chat_history_loop_drop pairs_of_odd)

theorem convert_openai_to_gradio_odd_witness:
  "insert_leading_user [\<lparr>role = ''user'', content = Some ''hi''\<rparr>]
     = Inr [\<lparr>role = ''user'', content = Some ''hi''\<rparr>]
   \<and> convert_openai_to_gradio [\<lparr>role = ''user'', content = Some ''hi''\<rparr>] = Inl IndexError
   \<and> insert_leading_user [\<lparr>role = ''assistant'', content = Some ''Welcome''\<rparr>,
                           \<lparr>role = ''user'', content = Some ''hi''\<rparr>]
     = Inr [\<lparr>role = ''user'', content = None\<rparr>,
            \<lparr>role = ''assistant'', content = Some ''Welcome''\<rparr>,
            \<lparr>role = ''user'', content = Some ''hi''\<rparr>]
   \<and> convert_openai_to_gradio [\<lparr>role = ''assistant'', content = Some ''Welcome''\<rparr>,
                                \<lparr>role = ''user'', content = Some ''hi''\<rparr>] = Inl IndexError"
proof -
  have h1: "insert_leading_user [\<lparr>role = ''user'', content = Some ''hi''\<rparr>]
     = Inr [\<lparr>role = ''user'', content = Some ''hi''\<rparr>]"
    by (simp add: insert_leading_user_def)
  have o1: "odd (length [\<lparr>role = ''user'', content = Some ''hi''\<rparr>])" by simp
  have h2: "insert_leading_user [\<lparr>role = ''assistant'', content = Some ''Welcome''\<rparr>,
                                \<lparr>role = ''user'', content = Some ''hi''\<rparr>]
     = Inr [\<lparr>role = ''user'', content = None\<rparr>,
            \<lparr>role = ''assistant'', content = Some ''Welcome''\<rparr>,
            \<lparr>role = ''user'', content = Some ''hi''\<rparr>]"
    by (simp add: insert_leading_user_def)
  have o2: "odd (length [\<lparr>role = ''user'', content = None\<rparr>,
            \<lparr>role = ''assistant'', content = Some ''Welcome''\<rparr>,
            \<lparr>role = ''user'', content = Some ''hi''\<rparr>])" by simp
  from convert_openai_to_gradio_odd [OF h1 o1] convert_openai_to_gradio_odd [OF h2 o2] h1 h2
  show ?thesis by simp
qed

section \<open>Properties of the template engine\<close>

lemma scan_literal_plain_end:
  "brace_free a \<Longrightarrow> scan_literal lit a = (if lit @ a = [] then [] else [(lit @ a, None)], None)"
proof (induction a arbitrary: lit)
  case Nil
  then show ?case by simp
next
  case (Cons c a)
  then show ?case by (cases a) (auto simp: brace_free_def)
qed

lemma scan_literal_plain:
  "brace_free a \<Longrightarrow> scan_literal lit (a @ rest) = scan_literal (lit @ a) rest"
proof (induction a arbitrary: lit)
  case Nil
  then show ?case by simp
next
  case (Cons c a)
  from Cons.prems have c: "c \<noteq> CHR ''{''" "c \<noteq> CHR ''}''" and a: "brace_free a"
    by (auto simp: brace_free_def)
  show ?case
  proof (cases "a @ rest")
    case Nil
    with c show ?thesis by simp
  next
    case ds: (Cons d s)
    have "scan_literal lit ((c # a) @ rest) = scan_literal (lit @ [c]) (a @ rest)"
      using c by (simp add: ds)
    also have "\<dots> = scan_literal ((lit @ [c]) @ a) rest"
      using Cons.IH [OF a] .
    finally show ?thesis by simp
  qed
qed

lemma scan_field_name:
  "CHR ''}'' \<notin> set n \<Longrightarrow> \<not> list_ex field_special n \<Longrightarrow>
     scan_field lit nm (n @ CHR ''}'' # rest) = emit (lit, Some (nm @ n)) (scan_literal [] rest)"
  by (induction n arbitrary: nm) auto

lemma scan_literal_field:
  assumes "CHR ''}'' \<notin> set n" and "\<not> list_ex field_special n"
  shows "scan_literal lit (CHR ''{'' # n @ CHR ''}'' # rest)
           = emit (lit, Some n) (scan_literal [] rest)"
proof -
  have "hd (n @ CHR ''}'' # rest) \<noteq> CHR ''{''"
    using assms by (cases n) (auto simp: field_special_def)
  then have "scan_literal lit (CHR ''{'' # n @ CHR ''}'' # rest)
               = scan_field lit [] (n @ CHR ''}'' # rest)"
    by (cases "n @ CHR ''}'' # rest") auto
  then show ?thesis
    using scan_field_name [OF assms, of lit "[]" rest] by simp
qed

lemma scan_segments:
  assumes "simple_segments segs"
    and "list_all (\<lambda>n. map_of kwargs n \<noteq> None) (placeholders segs)"
  shows "\<exists>ps. scan_literal lit (template_text segs) = (ps, None)
            \<and> List.map_filter snd ps = placeholders segs
            \<and> render ps None kwargs = Inr (lit @ substituted segs kwargs)"
  using assms
proof (induction segs arbitrary: lit)
  case Nil
  then show ?case by simp
next
  case (Cons seg segs)
  from Cons.prems have segs: "simple_segments segs"
    by (simp add: simple_segments_def)
  show ?case
  proof (cases seg)
    case (Text a)
    with Cons.prems have a: "brace_free a"
      and ks: "list_all (\<lambda>n. map_of kwargs n \<noteq> None) (placeholders segs)"
      by (simp_all add: simple_segments_def)
    from Cons.IH [OF segs ks, of "lit @ a"] show ?thesis
      by (simp add: Text scan_literal_plain [OF a])
  next
    case (Placeholder n)
    with Cons.prems have n: "CHR ''}'' \<notin> set n" "\<not> list_ex field_special n" "keyword_name n"
      and ks: "list_all (\<lambda>n. map_of kwargs n \<noteq> None) (placeholders segs)"
      and v: "map_of kwargs n \<noteq> None"
      by (simp_all add: simple_segments_def plain_name_def)
    from Cons.IH [OF segs ks, of "[]"] obtain ps where
      ps: "scan_literal [] (template_text segs) = (ps, None)"
        "List.map_filter snd ps = placeholders segs"
        "render ps None kwargs = Inr (substituted segs kwargs)"
      by auto
    from v obtain val where val: "map_of kwargs n = Some val" by auto
    show ?thesis
      by (simp add: Placeholder scan_literal_field [OF n(1,2)] ps n(3) val)
  qed
qed

lemma parse_segments:
  assumes "simple_segments segs"
  shows "parse_template (template_text segs) = Inr (placeholders segs)"
proof -
  let ?kw = "map (\<lambda>n. (n, [])) (placeholders segs)"
  have "list_all (\<lambda>n. map_of ?kw n \<noteq> None) (placeholders segs)"
    by (simp add: list_all_iff map_of_eq_None_iff image_image)
  from scan_segments [OF assms this, of "[]"] show ?thesis
    by (auto simp: parse_template_def formatter_parse_def)
qed

lemma init_segments:
  "simple_segments segs \<Longrightarrow>
     PromptTemplate_init (template_text segs)
       = Inr \<lparr>template = template_text segs, variables = placeholders segs\<rparr>"
  by (simp add: PromptTemplate_init_def parse_segments)

lemma str_format_segments:
  assumes "simple_segments segs"
    and "set (placeholders segs) \<subseteq> set (map fst kwargs)"
  shows "str_format (template_text segs) args kwargs = Inr (substituted segs kwargs)"
proof -
  have "list_all (\<lambda>n. map_of kwargs n \<noteq> None) (placeholders segs)"
    using assms(2) by (auto simp: list_all_iff map_of_eq_None_iff)
  from scan_segments [OF assms(1) this, of "[]"] show ?thesis
    by (auto simp: str_format_def formatter_parse_def)
qed

text \<open>
  A keyword call whose key set is the placeholder set, without the keyword \<open>self\<close>,
  returns the substituted text.
\<close>

lemma format_keywords:
  assumes "simple_segments segs"
    and "set (map fst kwargs) = set (placeholders segs)"
    and "''self'' \<notin> set (map fst kwargs)"
  shows "format \<lparr>template = template_text segs, variables = placeholders segs\<rparr> [] kwargs
           = Inr (substituted segs kwargs)"
proof -
  have "str_format (template_text segs) [] kwargs = Inr (substituted segs kwargs)"
    using assms by (intro str_format_segments) simp_all
  moreover have "kwargs = [] \<Longrightarrow> placeholders segs = []"
    using assms(2) by auto
  ultimately show ?thesis
    using assms(2,3) by (auto simp: format_def)
qed

text \<open>
  A mapping passed as the single positional argument is counted as one positional
  argument first: the call goes through exactly when the template has one field.
\<close>

lemma format_mapping_count:
  "length (variables self) \<noteq> 1 \<Longrightarrow>
     format self [Dict arg_dict] [] = Inl (ValueError CountMismatch)"
  by (simp add: format_def)

lemma format_mapping_single:
  assumes "simple_segments segs"
    and "length (placeholders segs) = 1"
    and "set (map fst arg_dict) = set (placeholders segs)"
  shows "format \<lparr>template = template_text segs, variables = placeholders segs\<rparr>
           [Dict arg_dict] [] = Inr (substituted segs arg_dict)"
proof -
  have "str_format (template_text segs) [] arg_dict = Inr (substituted segs arg_dict)"
    using assms by (intro str_format_segments) simp_all
  then show ?thesis
    using assms(2,3) by (simp add: format_def)
qed

text \<open>
  Claim C2. A mapping passed as the single positional argument whose key set equals the
  placeholder set formats the template, however many placeholders there are. At the
  template \<open>{a} {b}\<close> with the mapping \<open>{"a": "x", "b": "y"}\<close> the key set is the
  placeholder set, and \<open>format\<close> raises the ValueError of the positional count check.
\<close>

theorem format_mapping_two_placeholders:
  "PromptTemplate_init ''{a} {b}'' = Inr \<lparr>template = ''{a} {b}'', variables = [''a'', ''b'']\<rparr>
   \<and> set (map fst [(''a'', ''x''), (''b'', ''y'')]) = set [''a'', ''b'']
   \<and> format \<lparr>template = ''{a} {b}'', variables = [''a'', ''b'']\<rparr>
        [Dict [(''a'', ''x''), (''b'', ''y'')]] [] = Inl (ValueError CountMismatch)"
  by (simp add: PromptTemplate_init_def parse_template_def formatter_parse_def
      field_special_def format_def)

text \<open>
  For a template with at least one placeholder, a keyword-argument call (no positional
  argument, no keyword named \<open>self\<close>) whose key set differs from the placeholder set
  raises ValueError: that of the keyword check when keywords are given, that of the
  no-arguments check when the call has no argument at all.
\<close>

lemma format_keyword_mismatch:
  assumes "variables self \<noteq> []"
    and "set (map fst kwargs) \<noteq> set (variables self)"
    and "''self'' \<notin> set (map fst kwargs)"
  shows "format self [] kwargs
           = Inl (ValueError (if kwargs = [] then NoArguments else KeywordMismatch))"
  using assms by (simp add: format_def)

lemma format_keyword_mismatch_example:
  "PromptTemplate_init ''Dear {name}'' = Inr \<lparr>template = ''Dear {name}'', variables = [''name'']\<rparr>
   \<and> format \<lparr>template = ''Dear {name}'', variables = [''name'']\<rparr> [] [(''nmae'', ''Ann'')]
       = Inl (ValueError KeywordMismatch)
   \<and> format \<lparr>template = ''Dear {name}'', variables = [''name'']\<rparr> [] []
       = Inl (ValueError NoArguments)"
proof -
  let ?pt = "\<lparr>template = ''Dear {name}'', variables = [''name'']\<rparr>"
  have v: "variables ?pt \<noteq> []" by simp
  have k1: "set (map fst [(''nmae'', ''Ann'')]) \<noteq> set (variables ?pt)" by simp
  have k2: "set (map fst ([] :: (string \<times> string) list)) \<noteq> set (variables ?pt)" by simp
  have s1: "''self'' \<notin> set (map fst [(''nmae'', ''Ann'')])" by simp
  have s2: "''self'' \<notin> set (map fst ([] :: (string \<times> string) list))" by simp
  have i: "PromptTemplate_init ''Dear {name}'' = Inr ?pt"
    by (simp add: PromptTemplate_init_def parse_template_def formatter_parse_def
        field_special_def)
  from format_keyword_mismatch [OF v k1 s1] format_keyword_mismatch [OF v k2 s2] i
  show ?thesis by simp
qed

text \<open>
  Claim C5. For a template with at least one placeholder, every keyword-argument call
  whose key set differs from the placeholder set raises ValueError. At the template
  \<open>Dear {name}\<close> the call \<open>format(self="Ann")\<close> has the key set \<open>{self}\<close>, which is
  not the placeholder set \<open>{name}\<close>, and it raises TypeError: the keyword collides with
  the method's first parameter before the checks of the body run.
\<close>

theorem format_keyword_self:
  "PromptTemplate_init ''Dear {name}'' = Inr \<lparr>template = ''Dear {name}'', variables = [''name'']\<rparr>
   \<and> variables \<lparr>template = ''Dear {name}'', variables = [''name'']\<rparr> \<noteq> []
   \<and> set (map fst [(''self'', ''Ann'')])
        \<noteq> set (variables \<lparr>template = ''Dear {name}'', variables = [''name'']\<rparr>)
   \<and> format \<lparr>template = ''Dear {name}'', variables = [''name'']\<rparr> [] [(''self'', ''Ann'')]
        = Inl TypeError"
  by (simp add: PromptTemplate_init_def parse_template_def formatter_parse_def
      field_special_def format_def)

section \<open>Properties of the interview engine\<close>

lemma set_last_bot_snoc [simp]: "set_last_bot (hist @ [(u, b)]) v = hist @ [(u, v)]"
  by (simp add: set_last_bot_def)

lemma prep_messages_snoc:
  "prep_messages (hist @ [(u, b)]) system_message =
     Inr (\<lparr>role = ''system'', content = Some system_message\<rparr>
           # convert_gradio_to_openai hist @ [\<lparr>role = ''user'', content = u\<rparr>])"
  by (simp add: prep_messages_def)

text \<open>
  The source's flattening is the flattening the specification describes.
\<close>

lemma convert_gradio_to_openai_flat: "convert_gradio_to_openai T = flat_history T"
proof (induction T)
  case Nil
  then show ?case by (simp add: flat_history_def)
next
  case (Cons p T)
  obtain u b where p: "p = (u, b)" by (cases p)
  from Cons show ?case
    by (cases u; cases b) (auto simp: p flat_history_def slot_message_def map_filter_simps)
qed

text \<open>
  Claim C6. For a transcript whose last pair is a pending user turn, the request that
  \<open>bot_message\<close> passes to the completion API has as its messages exactly: the system
  message, then for each pair before the pending one its user message and its assistant
  message, in order and without the slots that are empty or absent, then one user message
  with the pending user text.
\<close>

theorem bot_message_request:
  "prep_messages (hist @ [(Some user_text, None)]) system_message =
     Inr ([\<lparr>role = ''system'', content = Some system_message\<rparr>]
          @ flat_history hist
          @ [\<lparr>role = ''user'', content = Some user_text\<rparr>])
   \<and> bot_message (hist @ [(Some user_text, None)]) system_message margs client =
     (case client \<lparr>messages = [\<lparr>role = ''system'', content = Some system_message\<rparr>]
                     @ flat_history hist
                     @ [\<lparr>role = ''user'', content = Some user_text\<rparr>],
                   stream = True, model_args = margs\<rparr> of
        Inl e \<Rightarrow> Inl e
      | Inr response \<Rightarrow> stream_loop (hist @ [(Some user_text, Some [])]) response)"
  by (simp add: bot_message_def prep_messages_snoc convert_gradio_to_openai_flat
      split: sum.splits)

text \<open>
  A session after the opening message and one full turn, with the second user message
  pending: the opening pair has no user text, and the request holds five messages.
\<close>

theorem bot_message_request_witness:
  "prep_messages
     [(None, Some ''Welcome''), (Some ''I liked it'', Some ''Why?''), (Some ''It was quick'', None)]
     ''You are an interviewer'' =
     Inr [\<lparr>role = ''system'', content = Some ''You are an interviewer''\<rparr>,
          \<lparr>role = ''assistant'', content = Some ''Welcome''\<rparr>,
          \<lparr>role = ''user'', content = Some ''I liked it''\<rparr>,
          \<lparr>role = ''assistant'', content = Some ''Why?''\<rparr>,
          \<lparr>role = ''user'', content = Some ''It was quick''\<rparr>]
   \<and> bot_message
     [(None, Some ''Welcome''), (Some ''I liked it'', Some ''Why?''), (Some ''It was quick'', None)]
     ''You are an interviewer'' ()
     (\<lambda>request.
        if messages request =
             [\<lparr>role = ''system'', content = Some ''You are an interviewer''\<rparr>,
              \<lparr>role = ''assistant'', content = Some ''Welcome''\<rparr>,
              \<lparr>role = ''user'', content = Some ''I liked it''\<rparr>,
              \<lparr>role = ''assistant'', content = Some ''Why?''\<rparr>,
              \<lparr>role = ''user'', content = Some ''It was quick''\<rparr>]
        then Inr [] else Inl APIError) =
     Inr ([], [(None, Some ''Welcome''), (Some ''I liked it'', Some ''Why?''),
               (Some ''It was quick'', Some [])])"
  using bot_message_request [of "[(None, Some ''Welcome''), (Some ''I liked it'', Some ''Why?'')]"
      "''It was quick''" "''You are an interviewer''" "()"
      "\<lambda>request.
        if messages request =
             [\<lparr>role = ''system'', content = Some ''You are an interviewer''\<rparr>,
              \<lparr>role = ''assistant'', content = Some ''Welcome''\<rparr>,
              \<lparr>role = ''user'', content = Some ''I liked it''\<rparr>,
              \<lparr>role = ''assistant'', content = Some ''Why?''\<rparr>,
              \<lparr>role = ''user'', content = Some ''It was quick''\<rparr>]
        then Inr [] else Inl APIError"]
  by (simp add: flat_history_def map_filter_simps)

lemma stream_loop_snoc:
  "stream_loop (hist @ [(u, Some acc)]) response =
     Inr (map (\<lambda>p. hist @ [(u, Some (acc @ concat p))]) (tl (prefixes (fragments response))),
          hist @ [(u, Some (acc @ concat (fragments response)))])"
proof (induction response arbitrary: acc)
  case Nil
  then show ?case by simp
next
  case (Cons delta response)
  show ?case
  proof (cases delta)
    case None
    with Cons show ?thesis by simp
  next
    case (Some d)
    show ?thesis
    proof (cases "d = []")
      case True
      with Some Cons show ?thesis by simp
    next
      case False
      obtain ps where ps: "prefixes (fragments response) = [] # ps"
        by (cases "fragments response") auto
      from False Some Cons.IH [of "acc @ d"] show ?thesis
        by (simp add: ps o_def)
    qed
  qed
qed

text \<open>
  Claim C9. Once the API call has returned its stream, \<open>bot_message\<close> leaves in the
  pending pair's bot slot the in-order concatenation of the non-empty fragments, whatever
  the slot held before: the slot is set to the empty string first, so a stream without
  content leaves the empty string, not \<open>None\<close>. The histories yielded on the way hold the
  concatenations of the non-empty prefixes of the fragments.
\<close>

theorem bot_message_stream:
  assumes "client \<lparr>messages = \<lparr>role = ''system'', content = Some system_message\<rparr>
                       # convert_gradio_to_openai hist @ [\<lparr>role = ''user'', content = u\<rparr>],
                    stream = True, model_args = margs\<rparr> = Inr response"
  shows "bot_message (hist @ [(u, b)]) system_message margs client =
           Inr (map (\<lambda>p. hist @ [(u, Some (concat p))]) (tl (prefixes (fragments response))),
                hist @ [(u, Some (concat (fragments response)))])"
  using assms stream_loop_snoc [of hist u "[]" response]
  by (simp add: bot_message_def prep_messages_snoc)

theorem bot_message_stream_witness:
  "bot_message [(None, Some ''Welcome''), (Some ''hi'', None)] ''sys'' ()
       (\<lambda>r. Inr [None, Some ''Hel'', Some [], Some ''lo''])
     = Inr ([[(None, Some ''Welcome''), (Some ''hi'', Some ''Hel'')],
             [(None, Some ''Welcome''), (Some ''hi'', Some ''Hello'')]],
            [(None, Some ''Welcome''), (Some ''hi'', Some ''Hello'')])
   \<and> bot_message [(None, Some ''Welcome''), (Some ''hi'', None)] ''sys'' ()
       (\<lambda>r. Inr [None, Some []])
     = Inr ([], [(None, Some ''Welcome''), (Some ''hi'', Some [])])"
  using bot_message_stream [of "\<lambda>r. Inr [None, Some ''Hel'', Some [], Some ''lo'']" "''sys''"
      "[(None, Some ''Welcome'')]" "Some ''hi''" "()" "[None, Some ''Hel'', Some [], Some ''lo'']" None]
    bot_message_stream [of "\<lambda>r. Inr [None, Some []]" "''sys''"
      "[(None, Some ''Welcome'')]" "Some ''hi''" "()" "[None, Some []]" None]
  by simp




section \<open>Properties of the end-of-interview check\<close>

lemma py_in_sublist: "py_in sub s = sublist sub s"
  by (induction s) (auto simp: sublist_Cons_right)

lemma py_replace_absent:
  "old \<noteq> [] \<Longrightarrow> hd old \<notin> set s \<Longrightarrow> py_replace s old new = s"
proof (induction s)
  case Nil
  then show ?case by (simp add: py_replace.simps [of "[]"])
next
  case (Cons c s)
  then have "\<not> prefix old (c # s)"
    by (cases old) auto
  with Cons show ?case
    by (simp add: py_replace.simps [of "c # s"])
qed

lemma py_replace_first:
  "old \<noteq> [] \<Longrightarrow> hd old \<notin> set pre \<Longrightarrow>
     py_replace (pre @ old @ post) old new = pre @ new @ py_replace post old new"
proof (induction pre)
  case Nil
  then show ?case
    by (simp add: py_replace.simps [of "old @ post"])
next
  case (Cons c pre)
  then have "\<not> prefix old (c # pre @ old @ post)"
    by (cases old) auto
  with Cons show ?case
    by (simp add: py_replace.simps [of "c # pre @ old @ post"])
qed

lemma py_replace_cut:
  "old \<noteq> [] \<Longrightarrow> hd old \<notin> set pre \<Longrightarrow> hd old \<notin> set post \<Longrightarrow>
     py_replace (pre @ old @ post) old [] = pre @ post"
  by (simp add: py_replace_first py_replace_absent)

text \<open>
  The replacement is one pass over the text: a marker that the text around a removed
  occurrence spells out is not looked for again.
\<close>

lemma py_replace_single_pass:
  "py_replace ''<end_of_<end_of_survey>survey>'' ''<end_of_survey>'' [] = ''<end_of_survey>''"
  by (simp add: py_replace.simps)

lemma interview_end_check_snoc:
  "interview_end_check (hist @ [(u, Some bot_text)]) limit end_of_interview =
     Inr (if sublist end_of_interview bot_text
          then \<lparr>chat_history = hist @ [(u, Some (py_replace bot_text end_of_interview []))],
                button_visible = True, input_visible = False, submit_visible = False\<rparr>
          else \<lparr>chat_history = hist @ [(u, Some bot_text)],
                button_visible = (limit \<le> int (length hist) + 1),
                input_visible = (int (length hist) + 1 < limit),
                submit_visible = (int (length hist) + 1 < limit)\<rparr>)"
  by (auto simp: interview_end_check_def py_in_sublist)

text \<open>
  Claim C3. When the last pair's bot text contains the end-of-interview marker, the
  check shows the exit button, hides the input box and the submit button, and returns
  the transcript with the marker removed from the last bot text: every occurrence that
  Python's \<open>replace\<close> finds in its pass from the left is replaced by nothing, and the
  other pairs and the user slot stay. When the marker's first character occurs nowhere
  else in the text, what is left is exactly the text around the marker.
\<close>

theorem interview_end_check_sentinel:
  assumes "sublist end_of_interview bot_text"
  shows "interview_end_check (hist @ [(u, Some bot_text)]) limit end_of_interview =
           Inr \<lparr>chat_history = hist @ [(u, Some (py_replace bot_text end_of_interview []))],
                button_visible = True, input_visible = False, submit_visible = False\<rparr>
         \<and> (end_of_interview \<noteq> [] \<and> bot_text = pre @ end_of_interview @ post
              \<and> hd end_of_interview \<notin> set pre \<and> hd end_of_interview \<notin> set post
            \<longrightarrow> py_replace bot_text end_of_interview [] = pre @ post)"
  using assms by (simp add: interview_end_check_snoc py_replace_cut)

theorem interview_end_check_sentinel_witness:
  "sublist default_end_of_interview ''Thanks, that's everything.<end_of_survey>''
   \<and> interview_end_check
        [(None, Some ''Welcome''), (Some ''ok'', Some ''Thanks, that's everything.<end_of_survey>'')]
        default_limit default_end_of_interview =
      Inr \<lparr>chat_history = [(None, Some ''Welcome''), (Some ''ok'', Some ''Thanks, that's everything.'')],
           button_visible = True, input_visible = False, submit_visible = False\<rparr>"
proof -
  have s: "''Thanks, that's everything.<end_of_survey>''
             = ''Thanks, that's everything.'' @ default_end_of_interview @ []"
    by (simp add: default_end_of_interview_def)
  have h: "sublist default_end_of_interview ''Thanks, that's everything.<end_of_survey>''"
    unfolding s by (rule sublist_appendI)
  have c: "hd default_end_of_interview \<notin> set ''Thanks, that's everything.''"
    "hd default_end_of_interview \<notin> set []" "default_end_of_interview \<noteq> []"
    by (simp_all add: default_end_of_interview_def)
  from interview_end_check_sentinel [OF h, of "[(None, Some ''Welcome'')]" "Some ''ok''"
      default_limit "''Thanks, that's everything.''" "[]"] s c h
  show ?thesis by simp
qed

text \<open>
  With the default limit and marker, for a transcript whose last pair holds text in its
  bot slot: twenty or more pairs end the interview (exit button shown, input box and
  submit button hidden), and nineteen or fewer pairs without the marker in the last bot
  text leave it active and the transcript as it was.
\<close>

lemma interview_end_check_limit:
  assumes "T = hist @ [(u, Some bot_text)]"
  shows "(20 \<le> length T \<longrightarrow>
            (\<exists>r. interview_end_check T default_limit default_end_of_interview = Inr r
                 \<and> button_visible r \<and> \<not> input_visible r \<and> \<not> submit_visible r))
         \<and> (length T \<le> 19 \<and> \<not> sublist default_end_of_interview bot_text \<longrightarrow>
            interview_end_check T default_limit default_end_of_interview =
              Inr \<lparr>chat_history = T, button_visible = False,
                   input_visible = True, submit_visible = True\<rparr>)"
  using assms by (auto simp: interview_end_check_snoc default_limit_def)

lemma interview_end_check_limit_example:
  "20 \<le> length (replicate 19 (Some ''q'', Some ''a'') @ [(Some ''q'', Some ''bye'')])
   \<and> (\<exists>r. interview_end_check (replicate 19 (Some ''q'', Some ''a'') @ [(Some ''q'', Some ''bye'')])
             default_limit default_end_of_interview = Inr r
          \<and> button_visible r \<and> \<not> input_visible r \<and> \<not> submit_visible r)
   \<and> length [(None, Some ''Welcome''), (Some ''hi'', Some ''Tell me more'')] \<le> 19
   \<and> \<not> sublist default_end_of_interview ''Tell me more''
   \<and> interview_end_check [(None, Some ''Welcome''), (Some ''hi'', Some ''Tell me more'')]
        default_limit default_end_of_interview =
      Inr \<lparr>chat_history = [(None, Some ''Welcome''), (Some ''hi'', Some ''Tell me more'')],
           button_visible = False, input_visible = True, submit_visible = True\<rparr>"
proof -
  have n: "\<not> sublist default_end_of_interview ''Tell me more''"
    by (simp add: py_in_sublist [symmetric] default_end_of_interview_def)
  have l: "20 \<le> length (replicate 19 (Some ''q'', Some ''a'') @ [(Some ''q'', Some ''bye'')])"
    by simp
  from interview_end_check_limit [of "replicate 19 (Some ''q'', Some ''a'') @ [(Some ''q'', Some ''bye'')]"
      "replicate 19 (Some ''q'', Some ''a'')" "Some ''q''" "''bye''"]
    interview_end_check_limit [of "[(None, Some ''Welcome''), (Some ''hi'', Some ''Tell me more'')]"
      "[(None, Some ''Welcome'')]" "Some ''hi''" "''Tell me more''"] n l
  show ?thesis by simp
qed

text \<open>
  Claim C4. With the default limit of 20 every transcript of twenty or more pairs ends the
  interview. A transcript of twenty pairs whose last bot slot is \<open>None\<close> has reached
  the limit, so the flag is set by the length test; the marker test that follows raises
  TypeError on the \<open>None\<close> slot, and the check ends without showing the exit button.
\<close>

theorem interview_end_check_limit_none_slot:
  "length (replicate 19 (Some ''q'', Some ''a'') @ [(Some ''q'', None)]) = 20
   \<and> interview_end_check (replicate 19 (Some ''q'', Some ''a'') @ [(Some ''q'', None)])
        default_limit default_end_of_interview = Inl TypeError"
  by (simp add: interview_end_check_def)

section \<open>Properties of the session initializer\<close>

lemma from_file_segments:
  "files path = Some (template_text segs) \<Longrightarrow> simple_segments segs \<Longrightarrow>
     from_file files path = Inr \<lparr>template = template_text segs, variables = placeholders segs\<rparr>"
  by (simp add: from_file_def init_segments)

lemma py_index_out_of_range:
  "i < - int (length xs) \<or> int (length xs) \<le> i \<Longrightarrow> py_index xs i = Inl IndexError"
  by (auto simp: py_index_def Let_def)

lemma py_index_in_range:
  "- int (length xs) \<le> i \<Longrightarrow> i < int (length xs) \<Longrightarrow>
     py_index xs i = Inr (xs ! nat (if i < 0 then int (length xs) + i else i))"
  by (auto simp: py_index_def Let_def)

lemma py_int_minus_one: "py_int 4300 ''-1'' = Inr (- 1)"
  by (simp add: py_int_def py_isspace_def is_digit_def digits_value_def)

text \<open>
  Claim C7. Session initialization fails with an out-of-range error whenever the
  response index is invalid for the choice list. With the choices Low, Medium, High the
  response \<open>-1\<close> is no index of a choice; the initialization does not fail on it but
  returns the last choice, High, in the system message.
\<close>

theorem initialize_interview_negative_response:
  "initialize_interview
     \<lparr>question_mapping = [''0'' \<mapsto> ''q0.json''],
      json_files = [''./assets/questions/q0.json'' \<mapsto>
        \<lparr>question = ''How satisfied were you?'', choices = [''Low'', ''Medium'', ''High'']\<rparr>],
      text_files = [''assets/initial_message.txt'' \<mapsto> ''Let us talk about: {surveyQuestion}'',
        ''assets/system_message.txt'' \<mapsto> ''Asked: {surveyQuestion} Answered: {responseVal}.'']\<rparr>
     (py_int 4300)
     [''response'' \<mapsto> ''-1'']
   = Inr (''testUser'', ''testSession'', ''How satisfied were you?'',
          ''Let us talk about: How satisfied were you?'',
          ''Asked: How satisfied were you? Answered: High.'')"
  by (simp add: initialize_interview_def Let_def get_param_def py_int_minus_one py_index_def
      from_file_def PromptTemplate_init_def parse_template_def formatter_parse_def
      field_special_def format_def str_format_def keyword_name_def is_digit_def)

text \<open>
  Claim C7, amended. Once the question record is found and \<open>int\<close> reads the
  \<open>response\<close> parameter as an integer, the response text is the choice list indexed by
  that integer as Python indexes a list: an integer below \<open>-n\<close> or from \<open>n\<close> on
  (\<open>n\<close> the number of choices) makes the initialization fail with IndexError, whatever
  the templates are; an integer from \<open>-n\<close> to \<open>n - 1\<close> selects a choice, a negative
  one counting from the end, and with an initial template whose placeholder is the
  question wording and a system template whose placeholders are the question wording and
  the response text, the initialization returns the two texts with the wording and the
  selected choice substituted.
\<close>

theorem initialize_interview_response_index:
  assumes "question_mapping A (get_param request_params ''questionid'' ''0'') = Some fname"
    and "json_files A (''./assets/questions/'' @ fname) = Some qd"
    and "int_of (get_param request_params ''response'' ''0'') = Inr idx"
  shows "(idx < - int (length (choices qd)) \<or> int (length (choices qd)) \<le> idx
            \<longrightarrow> initialize_interview A int_of request_params = Inl IndexError)
       \<and> (- int (length (choices qd)) \<le> idx \<and> idx < int (length (choices qd))
            \<and> simple_segments isegs \<and> set (placeholders isegs) = {''surveyQuestion''}
            \<and> text_files A ''assets/initial_message.txt'' = Some (template_text isegs)
            \<and> simple_segments ssegs
            \<and> set (placeholders ssegs) = {''surveyQuestion'', ''responseVal''}
            \<and> text_files A ''assets/system_message.txt'' = Some (template_text ssegs)
          \<longrightarrow> initialize_interview A int_of request_params =
                Inr (get_param request_params ''user'' ''testUser'',
                     get_param request_params ''session'' ''testSession'',
                     question qd,
                     substituted isegs [(''surveyQuestion'', question qd)],
                     substituted ssegs
                       [(''surveyQuestion'', question qd),
                        (''responseVal'',
                         choices qd ! nat (if idx < 0 then int (length (choices qd)) + idx
                                           else idx))]))"
proof (intro conjI impI)
  assume "idx < - int (length (choices qd)) \<or> int (length (choices qd)) \<le> idx"
  then have "py_index (choices qd) idx = Inl IndexError"
    by (rule py_index_out_of_range)
  with assms show "initialize_interview A int_of request_params = Inl IndexError"
    by (simp add: initialize_interview_def Let_def)
next
  let ?r = "choices qd ! nat (if idx < 0 then int (length (choices qd)) + idx else idx)"
  assume h: "- int (length (choices qd)) \<le> idx \<and> idx < int (length (choices qd))
            \<and> simple_segments isegs \<and> set (placeholders isegs) = {''surveyQuestion''}
            \<and> text_files A ''assets/initial_message.txt'' = Some (template_text isegs)
            \<and> simple_segments ssegs
            \<and> set (placeholders ssegs) = {''surveyQuestion'', ''responseVal''}
            \<and> text_files A ''assets/system_message.txt'' = Some (template_text ssegs)"
  then have ix: "py_index (choices qd) idx = Inr ?r"
    by (intro py_index_in_range) simp_all
  from h have fi: "from_file (text_files A) ''assets/initial_message.txt''
      = Inr \<lparr>template = template_text isegs, variables = placeholders isegs\<rparr>"
    by (intro from_file_segments) simp_all
  from h have fs: "from_file (text_files A) ''assets/system_message.txt''
      = Inr \<lparr>template = template_text ssegs, variables = placeholders ssegs\<rparr>"
    by (intro from_file_segments) simp_all
  from h have mi: "format \<lparr>template = template_text isegs, variables = placeholders isegs\<rparr> []
      [(''surveyQuestion'', question qd)] = Inr (substituted isegs [(''surveyQuestion'', question qd)])"
    by (intro format_keywords) simp_all
  from h have ms: "format \<lparr>template = template_text ssegs, variables = placeholders ssegs\<rparr> []
      [(''surveyQuestion'', question qd), (''responseVal'', ?r)]
      = Inr (substituted ssegs [(''surveyQuestion'', question qd), (''responseVal'', ?r)])"
    by (intro format_keywords) auto
  from assms ix fi fs mi ms
  show "initialize_interview A int_of request_params =
          Inr (get_param request_params ''user'' ''testUser'',
               get_param request_params ''session'' ''testSession'',
               question qd,
               substituted isegs [(''surveyQuestion'', question qd)],
               substituted ssegs [(''surveyQuestion'', question qd), (''responseVal'', ?r)])"
    by (simp add: initialize_interview_def Let_def)
qed

text \<open>
  The example of the specification: the mapping \<open>{"0": "q0.json"}\<close>, the question
  "How satisfied were you?" with the choices Low, Medium, High, and \<open>response=2\<close>;
  with \<open>response=3\<close> the initialization fails.
\<close>

theorem initialize_interview_response_index_witness:
  "initialize_interview
     \<lparr>question_mapping = [''0'' \<mapsto> ''q0.json''],
      json_files = [''./assets/questions/q0.json'' \<mapsto>
        \<lparr>question = ''How satisfied were you?'', choices = [''Low'', ''Medium'', ''High'']\<rparr>],
      text_files = [''assets/initial_message.txt'' \<mapsto> ''Let us talk about: {surveyQuestion}'',
        ''assets/system_message.txt'' \<mapsto> ''Asked: {surveyQuestion} Answered: {responseVal}.'']\<rparr>
     (py_int 4300)
     [''response'' \<mapsto> ''2'']
   = Inr (''testUser'', ''testSession'', ''How satisfied were you?'',
          ''Let us talk about: How satisfied were you?'',
          ''Asked: How satisfied were you? Answered: High.'')
   \<and> initialize_interview
     \<lparr>question_mapping = [''0'' \<mapsto> ''q0.json''],
      json_files = [''./assets/questions/q0.json'' \<mapsto>
        \<lparr>question = ''How satisfied were you?'', choices = [''Low'', ''Medium'', ''High'']\<rparr>],
      text_files = [''assets/initial_message.txt'' \<mapsto> ''Let us talk about: {surveyQuestion}'',
        ''assets/system_message.txt'' \<mapsto> ''Asked: {surveyQuestion} Answered: {responseVal}.'']\<rparr>
     (py_int 4300)
     [''response'' \<mapsto> ''3'']
   = Inl IndexError"
proof -
  let ?qd = "\<lparr>question = ''How satisfied were you?'', choices = [''Low'', ''Medium'', ''High'']\<rparr>"
  let ?A = "\<lparr>question_mapping = [''0'' \<mapsto> ''q0.json''],
      json_files = [''./assets/questions/q0.json'' \<mapsto> ?qd],
      text_files = [''assets/initial_message.txt'' \<mapsto> ''Let us talk about: {surveyQuestion}'',
        ''assets/system_message.txt'' \<mapsto> ''Asked: {surveyQuestion} Answered: {responseVal}.'']\<rparr>"
  let ?isegs = "[Text ''Let us talk about: '', Placeholder ''surveyQuestion'']"
  let ?ssegs = "[Text ''Asked: '', Placeholder ''surveyQuestion'', Text '' Answered: '',
      Placeholder ''responseVal'', Text ''.'']"
  have m2: "question_mapping ?A (get_param [''response'' \<mapsto> ''2''] ''questionid'' ''0'') = Some ''q0.json''"
    and m3: "question_mapping ?A (get_param [''response'' \<mapsto> ''3''] ''questionid'' ''0'') = Some ''q0.json''"
    by (simp_all add: get_param_def)
  have f: "json_files ?A (''./assets/questions/'' @ ''q0.json'') = Some ?qd"
    by simp
  have i2: "py_int 4300 (get_param [''response'' \<mapsto> ''2''] ''response'' ''0'') = Inr 2"
    and i3: "py_int 4300 (get_param [''response'' \<mapsto> ''3''] ''response'' ''0'') = Inr 3"
    by (simp_all add: get_param_def py_int_def py_isspace_def is_digit_def digits_value_def)
  have segs: "simple_segments ?isegs" "simple_segments ?ssegs"
    by (simp_all add: simple_segments_def brace_free_def plain_name_def field_special_def
        keyword_name_def is_digit_def)
  have ph: "set (placeholders ?isegs) = {''surveyQuestion''}"
    "set (placeholders ?ssegs) = {''surveyQuestion'', ''responseVal''}"
    by simp_all
  have t: "text_files ?A ''assets/initial_message.txt'' = Some (template_text ?isegs)"
    "text_files ?A ''assets/system_message.txt'' = Some (template_text ?ssegs)"
    by simp_all
  from initialize_interview_response_index [of ?A _ _ ?qd "py_int 4300" 2 ?isegs ?ssegs, OF m2 f i2]
    initialize_interview_response_index [of ?A _ _ ?qd "py_int 4300" 3 ?isegs ?ssegs, OF m3 f i3]
    segs ph t
  show ?thesis by (simp add: get_param_def)
qed

end
